theory Spec2Isabelle
  imports Complex_Main
begin

section \<open>JavaScript values\<close>

text \<open>
  The worker stores and returns whatever \<open>req.json()\<close> produced, and looks at such a
  value in two ways only: it tests it for truthiness (\<open>!offer\<close>, \<open>entry.answer || null\<close>)
  and it reads the property \<open>answer\<close> of the parsed body. A parsed JSON document is a
  value of \<open>jsval\<close>; \<open>JUndefined\<close> is the value of a property that is not there. An
  object is the list of its own properties, in the order the object lists them.

  A number is a finite value \<open>JNum x\<close>, with \<open>JNum 0\<close> the positive zero, or one of the
  three other numbers a JSON text parses to: the negative zero (\<open>-0\<close>), and \<open>Infinity\<close>
  and \<open>-Infinity\<close>, which \<open>req.json()\<close> yields for a literal beyond the range of a double
  such as \<open>1e400\<close> and \<open>-1e400\<close>. No JSON text parses to \<open>NaN\<close>.
\<close>

datatype jsval =
    JUndefined
  | JNull
  | JBool bool
  | JNum real
  | JNegZero
  | JInfinity
  | JNegInfinity
  | JStr string
  | JArr "jsval list"
  | JObj "(string \<times> jsval) list"

text \<open>JavaScript's ToBoolean: the operand of \<open>!\<close> and the left operand of \<open>||\<close>.\<close>

fun truthy :: "jsval \<Rightarrow> bool" where
  "truthy JUndefined = False"
| "truthy JNull = False"
| "truthy (JBool b) = b"
| "truthy (JNum n) = (n \<noteq> 0)"
| "truthy JNegZero = False"
| "truthy JInfinity = True"
| "truthy JNegInfinity = True"
| "truthy (JStr s) = (s \<noteq> [])"
| "truthy (JArr xs) = True"
| "truthy (JObj kvs) = True"

datatype error = TypeError

text \<open>
  The property read \<open>body.answer\<close>. On \<open>null\<close> and \<open>undefined\<close> it throws a TypeError;
  on an object it is the own property of that name, or \<open>undefined\<close>; on every other
  value (array, string, number, boolean) there is no such property and it is \<open>undefined\<close>.
\<close>

fun prop_answer :: "jsval \<Rightarrow> error + jsval" where
  "prop_answer JUndefined = Inl TypeError"
| "prop_answer JNull = Inl TypeError"
| "prop_answer (JObj kvs) =
     Inr (case map_of kvs ''answer'' of None \<Rightarrow> JUndefined | Some v \<Rightarrow> v)"
| "prop_answer v = Inr JUndefined"

text \<open>
  \<open>JSON.stringify\<close>, as the value that the written text denotes. A non-finite number is
  written \<open>null\<close> and the negative zero \<open>0\<close>; a property whose value is \<open>undefined\<close> is
  left out of its object, and \<open>undefined\<close> in an array is written \<open>null\<close>; everything else
  is written as it is. (\<open>JSON.stringify(undefined)\<close> itself is \<open>undefined\<close>.)
\<close>

primrec JSON_stringify :: "jsval \<Rightarrow> jsval" where
  "JSON_stringify JUndefined = JUndefined"
| "JSON_stringify JNull = JNull"
| "JSON_stringify (JBool b) = JBool b"
| "JSON_stringify (JNum n) = JNum n"
| "JSON_stringify JNegZero = JNum 0"
| "JSON_stringify JInfinity = JNull"
| "JSON_stringify JNegInfinity = JNull"
| "JSON_stringify (JStr s) = JStr s"
| "JSON_stringify (JArr xs) =
     JArr (map (\<lambda>x. if x = JUndefined then JNull else x) (map JSON_stringify xs))"
| "JSON_stringify (JObj kvs) =
     JObj (filter (\<lambda>kv. snd kv \<noteq> JUndefined) (map (map_prod id JSON_stringify) kvs))"

text \<open>
  \<open>plain v\<close>: nowhere in \<open>v\<close> is there \<open>undefined\<close>, a non-finite number or the negative
  zero. These are the values that \<open>JSON.stringify\<close> writes back as they are (lemma
  \<open>plain_stringify\<close>).
\<close>

primrec plain :: "jsval \<Rightarrow> bool" where
  "plain JUndefined = False"
| "plain JNull = True"
| "plain (JBool b) = True"
| "plain (JNum n) = True"
| "plain JNegZero = False"
| "plain JInfinity = False"
| "plain JNegInfinity = False"
| "plain (JStr s) = True"
| "plain (JArr xs) = list_all id (map plain xs)"
| "plain (JObj kvs) = list_all snd (map (map_prod id plain) kvs)"

section \<open>Requests, responses and the environment\<close>

text \<open>
  A request as the handlers read it: \<open>req.method\<close> (the field \<open>http_method\<close>), \<open>url.pathname\<close>,
  \<open>url.searchParams.get("key")\<close> (\<open>None\<close> for \<open>null\<close>, the parameter being absent), and
  the outcome of \<open>req.json()\<close>: \<open>Some v\<close> when the body parses to \<open>v\<close>, \<open>None\<close> when the
  promise rejects (no body, or a body that is not JSON).
\<close>

record request =
  http_method :: string
  pathname :: string
  key_param :: "string option"
  json_body :: "jsval option"

text \<open>
  What one run of \<open>Room.fetch\<close> reads from its environment: \<open>Date.now()\<close> inside \<open>gc\<close>,
  \<open>Date.now()\<close> when the record is written (after the body has been awaited, so possibly
  later), and the result of \<open>crypto.randomUUID()\<close>.
\<close>

record env =
  gc_now :: int
  set_now :: int
  uuid :: string

datatype resp_body = NoBody | TextBody string | JsonBody jsval

text \<open>
  A response: its status, its headers (names in lower case, as a \<open>Headers\<close> object keeps
  them) and its body. \<open>JsonBody d\<close> is a body that is the JSON text of the document \<open>d\<close>.
  \<open>json\<close> writes its argument with \<open>JSON.stringify\<close>. A response made from a string
  with no content type of its own gets \<open>text/plain;charset=UTF-8\<close> from the constructor.
\<close>

record response =
  status :: nat
  headers :: "(string \<times> string) list"
  body :: resp_body

fun headers_set :: "string \<Rightarrow> string \<Rightarrow> (string \<times> string) list \<Rightarrow> (string \<times> string) list" where
  "headers_set k v [] = [(k, v)]"
| "headers_set k v ((k', v') # hs) =
     (if k' = k then (k, v) # hs else (k', v') # headers_set k v hs)"

definition withCORS :: "response \<Rightarrow> response" where
  "withCORS resp =
     \<lparr> status = status resp,
       headers =
         headers_set ''cache-control'' ''no-store''
           (headers_set ''access-control-allow-headers'' ''Content-Type''
             (headers_set ''access-control-allow-methods'' ''GET,POST,OPTIONS''
               (headers_set ''access-control-allow-origin'' ''*'' (headers resp)))),
       body = body resp \<rparr>"

definition json :: "jsval \<Rightarrow> nat \<Rightarrow> response" where
  "json obj st =
     \<lparr> status = st,
       headers = [(''content-type'', ''application/json''), (''cache-control'', ''no-store'')],
       body = JsonBody (JSON_stringify obj) \<rparr>"

definition text_response :: "string \<Rightarrow> nat \<Rightarrow> response" where
  "text_response txt st =
     \<lparr> status = st,
       headers = [(''content-type'', ''text/plain;charset=UTF-8'')],
       body = TextBody txt \<rparr>"

text \<open>The JSON document an outcome carries, if it is a response with a JSON body.\<close>

definition document :: "error + response \<Rightarrow> jsval option" where
  "document out =
     (case out of
        Inl err \<Rightarrow> None
      | Inr resp \<Rightarrow> (case body resp of JsonBody d \<Rightarrow> Some d | _ \<Rightarrow> None))"

text \<open>\<open>url.pathname.split("/").filter(Boolean)\<close>: the non-empty segments of the path.\<close>

fun split_on :: "char \<Rightarrow> string \<Rightarrow> string list" where
  "split_on c [] = [[]]"
| "split_on c (x # xs) =
     (if x = c then [] # split_on c xs
      else (case split_on c xs of
              [] \<Rightarrow> [[x]]
            | p # ps \<Rightarrow> (x # p) # ps))"

definition path_parts :: "string \<Rightarrow> string list" where
  "path_parts p = filter (\<lambda>s. s \<noteq> []) (split_on (CHR ''/'') p)"

text \<open>\<open>parts[i]\<close>: \<open>undefined\<close> (here \<open>None\<close>) beyond the end of the array.\<close>

definition part :: "string list \<Rightarrow> nat \<Rightarrow> string option" where
  "part parts i = (if i < length parts then Some (parts ! i) else None)"

section \<open>The room\<close>

text \<open>
  One entry of \<open>this.sessions\<close>. A record is written in one place only, as
  \<open>{ offer, createdAt: Date.now() }\<close>, so \<open>createdAt\<close> is a number of milliseconds and
  \<open>answer\<close> is \<open>undefined\<close> until it is assigned.
\<close>

record session =
  offer :: jsval
  answer :: jsval
  createdAt :: int

type_synonym sessions = "string \<rightharpoonup> session"

text \<open>
  \<open>gc\<close> visits every entry once and deletes it when the test of the source holds
  (\<open>!v.createdAt\<close> is \<open>createdAt = 0\<close> for a number). \<open>gc_loop\<close> is that loop over the
  entries \<open>es\<close> of the map; \<open>Room_gc\<close> is the map it leaves, the map before the sweep
  without the entries that meet the test (lemma \<open>gc_loop_is_Room_gc\<close>).
\<close>

definition expired :: "int \<Rightarrow> int \<Rightarrow> session \<Rightarrow> bool" where
  "expired ttlSec now v \<longleftrightarrow> createdAt v = 0 \<or> now - createdAt v > ttlSec * 1000"

definition Room_gc :: "int \<Rightarrow> int \<Rightarrow> sessions \<Rightarrow> sessions" where
  "Room_gc ttlSec now m =
     (\<lambda>k. case m k of
             None \<Rightarrow> None
           | Some v \<Rightarrow> if expired ttlSec now v then None else Some v)"

fun gc_loop :: "int \<Rightarrow> int \<Rightarrow> (string \<times> session) list \<Rightarrow> sessions \<Rightarrow> sessions" where
  "gc_loop ttlSec now [] m = m"
| "gc_loop ttlSec now ((k, v) # es) m =
     gc_loop ttlSec now es (if expired ttlSec now v then m(k := None) else m)"

definition request_key :: "env \<Rightarrow> request \<Rightarrow> string" where
  "request_key e req =
     (case key_param req of
        None \<Rightarrow> uuid e
      | Some k \<Rightarrow> if k \<noteq> [] then k else uuid e)"

definition request_action :: "request \<Rightarrow> string option" where
  "request_action req = part (path_parts (pathname req)) 2"

text \<open>
  \<open>Room.fetch\<close>, from the sessions before the request to the outcome (a response, or the
  exception the handler dies with) and the sessions after it. A request is one step:
  the requests of a room are handled one at a time, so nothing else touches the sessions
  between the sweep of a request and its write.
\<close>

definition Room_fetch :: "env \<Rightarrow> request \<Rightarrow> sessions \<Rightarrow> (error + response) \<times> sessions" where
  "Room_fetch e req m =
     (let action = request_action req;
          key = request_key e req;
          s = Room_gc 600 (gc_now e) m
      in
        if http_method req = ''POST'' \<and> action = Some ''offer'' then
          (let parsed = (case json_body req of None \<Rightarrow> JNull | Some v \<Rightarrow> v) in
             if \<not> truthy parsed
             then (Inr (json (JObj [(''error'', JStr ''invalid offer'')]) 400), s)
             else (Inr (json (JObj [(''key'', JStr key)]) 200),
                   s(key \<mapsto> \<lparr> offer = parsed, answer = JUndefined, createdAt = set_now e \<rparr>)))
        else if http_method req = ''POST'' \<and> action = Some ''answer'' then
          (let parsed = (case json_body req of None \<Rightarrow> JObj [] | Some v \<Rightarrow> v) in
             case s key of
               None \<Rightarrow> (Inr (json (JObj [(''error'', JStr ''no offer'')]) 404), s)
             | Some entry \<Rightarrow>
                 if \<not> truthy (offer entry)
                 then (Inr (json (JObj [(''error'', JStr ''no offer'')]) 404), s)
                 else (case prop_answer parsed of
                         Inl err \<Rightarrow> (Inl err, s)
                       | Inr a \<Rightarrow>
                           (Inr (json (JObj [(''ok'', JBool True)]) 200),
                            s(key \<mapsto> entry\<lparr> answer := a \<rparr>))))
        else if http_method req = ''GET'' \<and> action = Some ''get'' then
          (case s key of
             None \<Rightarrow> (Inr (text_response ''Not found'' 404), s)
           | Some entry \<Rightarrow>
               (Inr (json (JObj [(''offer'', offer entry),
                                 (''answer'', if truthy (answer entry) then answer entry else JNull)])
                          200),
                s))
        else (Inr (text_response ''Not found'' 404), s))"

section \<open>The router\<close>

text \<open>
  \<open>env.ROOM.idFromName(slug)\<close> names one \<open>Room\<close> object per slug, and each object owns the
  \<open>Map\<close> its constructor made. The rooms are therefore a function from slugs to session
  maps, empty for a room never addressed.
\<close>

type_synonym rooms = "string \<Rightarrow> sessions"

definition no_rooms :: rooms where
  "no_rooms = (\<lambda>slug. Map.empty)"

definition fetch :: "env \<Rightarrow> request \<Rightarrow> rooms \<Rightarrow> (error + response) \<times> rooms" where
  "fetch e req rs =
     (if http_method req = ''OPTIONS'' then
        (Inr \<lparr> status = 204,
               headers = [(''access-control-allow-origin'', ''*''),
                          (''access-control-allow-methods'', ''GET,POST,OPTIONS''),
                          (''access-control-allow-headers'', ''Content-Type''),
                          (''cache-control'', ''no-store'')],
               body = NoBody \<rparr>, rs)
      else if pathname req = ''/health'' then
        (Inr (withCORS (text_response ''ok'' 200)), rs)
      else
        (let parts = path_parts (pathname req) in
           if part parts 0 = Some ''room'' \<and> 3 \<le> length parts then
             (let slug = parts ! 1;
                  (out, m') = Room_fetch e req (rs slug)
              in (case out of
                    Inl err \<Rightarrow> Inl err
                  | Inr resp \<Rightarrow> Inr (withCORS resp),
                  rs(slug := m')))
           else (Inr (withCORS (text_response ''Not found'' 404)), rs)))"

section \<open>The three operations\<close>

text \<open>
  The dispatch tests of \<open>Room.fetch\<close>, named after the operation each one selects:
  \<open>POST .../offer\<close> is CreateOffer, \<open>POST .../answer\<close> is SubmitAnswer and
  \<open>GET .../get\<close> is ReadSession.
\<close>

definition is_CreateOffer :: "request \<Rightarrow> bool" where
  "is_CreateOffer req \<longleftrightarrow> http_method req = ''POST'' \<and> request_action req = Some ''offer''"

definition is_SubmitAnswer :: "request \<Rightarrow> bool" where
  "is_SubmitAnswer req \<longleftrightarrow> http_method req = ''POST'' \<and> request_action req = Some ''answer''"

definition is_ReadSession :: "request \<Rightarrow> bool" where
  "is_ReadSession req \<longleftrightarrow> http_method req = ''GET'' \<and> request_action req = Some ''get''"

text \<open>
  A history of one room: requests handled by \<open>Room.fetch\<close> and direct calls of
  \<open>gc(ttlSec)\<close> at some time, applied in order to the sessions.
\<close>

datatype event = Fetch env request | Gc int int

fun step :: "event \<Rightarrow> sessions \<Rightarrow> sessions" where
  "step (Fetch e req) m = snd (Room_fetch e req m)"
| "step (Gc ttlSec now) m = Room_gc ttlSec now m"

definition run :: "event list \<Rightarrow> sessions \<Rightarrow> sessions" where
  "run evs m = fold step evs m"

text \<open>
  \<open>written_by k v ev\<close>: the event \<open>ev\<close> is an offer request for the key \<open>k\<close> whose body
  is the offer of \<open>v\<close> and whose write happened at the \<open>createdAt\<close> of \<open>v\<close>.
\<close>

definition written_by :: "string \<Rightarrow> session \<Rightarrow> event \<Rightarrow> bool" where
  "written_by k v ev =
     (case ev of
        Fetch e req \<Rightarrow>
          is_CreateOffer req \<and> request_key e req = k \<and> json_body req = Some (offer v)
          \<and> createdAt v = set_now e
      | Gc ttlSec now \<Rightarrow> False)"

definition sessions_ok :: "event list \<Rightarrow> sessions \<Rightarrow> bool" where
  "sessions_ok evs m \<longleftrightarrow>
     (\<forall>k v. m k = Some v \<longrightarrow> truthy (offer v) \<and> list_ex (written_by k v) evs)"

section \<open>Example requests\<close>

text \<open>
  The requests of the interface table, \<open>POST /room/{slug}/offer\<close>,
  \<open>POST /room/{slug}/answer\<close> and \<open>GET /room/{slug}/get\<close>, an environment whose clock reads
  \<open>t\<close> at both readings, and two payloads of the kind the peers exchange.
\<close>

definition offer_request :: "string \<Rightarrow> string option \<Rightarrow> jsval option \<Rightarrow> request" where
  "offer_request slug k b =
     \<lparr> http_method = ''POST'', pathname = ''/room/'' @ slug @ ''/offer'', key_param = k, json_body = b \<rparr>"

definition answer_request :: "string \<Rightarrow> string option \<Rightarrow> jsval option \<Rightarrow> request" where
  "answer_request slug k b =
     \<lparr> http_method = ''POST'', pathname = ''/room/'' @ slug @ ''/answer'', key_param = k, json_body = b \<rparr>"

definition get_request :: "string \<Rightarrow> string option \<Rightarrow> request" where
  "get_request slug k =
     \<lparr> http_method = ''GET'', pathname = ''/room/'' @ slug @ ''/get'', key_param = k, json_body = None \<rparr>"

definition ex_uuid :: string where
  "ex_uuid = ''123e4567-e89b-42d3-a456-426614174000''"

definition ex_env :: "int \<Rightarrow> env" where
  "ex_env t = \<lparr> gc_now = t, set_now = t, uuid = ex_uuid \<rparr>"

definition ex_offer :: jsval where
  "ex_offer = JObj [(''type'', JStr ''offer''), (''sdp'', JStr ''v=0'')]"

definition ex_offer2 :: jsval where
  "ex_offer2 = JObj [(''type'', JStr ''offer''), (''sdp'', JStr ''v=0 o=- 2'')]"

definition ex_answer :: jsval where
  "ex_answer = JObj [(''type'', JStr ''answer''), (''sdp'', JStr ''v=0'')]"

section \<open>What each branch of \<open>Room.fetch\<close> computes\<close>

lemma gc_loop_apply:
  "gc_loop ttlSec now es m k =
     (if \<exists>v. (k, v) \<in> set es \<and> expired ttlSec now v then None else m k)"
  by (induction es arbitrary: m) auto

lemma gc_loop_is_Room_gc:
  assumes "\<forall>k v. (k, v) \<in> set es \<longleftrightarrow> m k = Some v"
  shows "gc_loop ttlSec now es m = Room_gc ttlSec now m"
proof
  fix k
  show "gc_loop ttlSec now es m k = Room_gc ttlSec now m k"
    using assms by (auto simp add: gc_loop_apply Room_gc_def split: option.splits)
qed

lemma Room_gc_Some:
  "Room_gc ttlSec now m k = Some v \<longleftrightarrow> m k = Some v \<and> \<not> expired ttlSec now v"
  by (auto simp add: Room_gc_def split: option.splits)

lemma Room_gc_None:
  "Room_gc ttlSec now m k = None \<longleftrightarrow> (\<forall>v. m k = Some v \<longrightarrow> expired ttlSec now v)"
  by (auto simp add: Room_gc_def split: option.splits)

lemma Room_fetch_offer:
  "is_CreateOffer req \<Longrightarrow>
   Room_fetch e req m =
     (case json_body req of
        None \<Rightarrow>
          (Inr (json (JObj [(''error'', JStr ''invalid offer'')]) 400), Room_gc 600 (gc_now e) m)
      | Some v \<Rightarrow>
          if truthy v
          then (Inr (json (JObj [(''key'', JStr (request_key e req))]) 200),
                (Room_gc 600 (gc_now e) m)(request_key e req \<mapsto>
                   \<lparr> offer = v, answer = JUndefined, createdAt = set_now e \<rparr>))
          else (Inr (json (JObj [(''error'', JStr ''invalid offer'')]) 400),
                Room_gc 600 (gc_now e) m))"
  by (simp add: Room_fetch_def is_CreateOffer_def Let_def split: option.splits)

lemma Room_fetch_answer:
  "is_SubmitAnswer req \<Longrightarrow>
   Room_fetch e req m =
     (case Room_gc 600 (gc_now e) m (request_key e req) of
        None \<Rightarrow>
          (Inr (json (JObj [(''error'', JStr ''no offer'')]) 404), Room_gc 600 (gc_now e) m)
      | Some entry \<Rightarrow>
          if \<not> truthy (offer entry)
          then (Inr (json (JObj [(''error'', JStr ''no offer'')]) 404), Room_gc 600 (gc_now e) m)
          else (case prop_answer (case json_body req of None \<Rightarrow> JObj [] | Some v \<Rightarrow> v) of
                  Inl err \<Rightarrow> (Inl err, Room_gc 600 (gc_now e) m)
                | Inr a \<Rightarrow>
                    (Inr (json (JObj [(''ok'', JBool True)]) 200),
                     (Room_gc 600 (gc_now e) m)(request_key e req \<mapsto> entry\<lparr> answer := a \<rparr>))))"
  by (simp add: Room_fetch_def is_SubmitAnswer_def Let_def split: option.splits)

lemma Room_fetch_get:
  "is_ReadSession req \<Longrightarrow>
   Room_fetch e req m =
     (case Room_gc 600 (gc_now e) m (request_key e req) of
        None \<Rightarrow> (Inr (text_response ''Not found'' 404), Room_gc 600 (gc_now e) m)
      | Some entry \<Rightarrow>
          (Inr (json (JObj [(''offer'', offer entry),
                            (''answer'', if truthy (answer entry) then answer entry else JNull)])
                     200),
           Room_gc 600 (gc_now e) m))"
  by (simp add: Room_fetch_def is_ReadSession_def Let_def split: option.splits)

lemma Room_fetch_other:
  "\<not> is_CreateOffer req \<Longrightarrow> \<not> is_SubmitAnswer req \<Longrightarrow> \<not> is_ReadSession req \<Longrightarrow>
   Room_fetch e req m = (Inr (text_response ''Not found'' 404), Room_gc 600 (gc_now e) m)"
  unfolding Room_fetch_def is_CreateOffer_def is_SubmitAnswer_def is_ReadSession_def Let_def
  by (cases "http_method req = ''POST''"; cases "http_method req = ''GET''"; simp)

lemma json_status: "json a s = json b t \<Longrightarrow> s = t"
  by (simp add: json_def)

lemma document_json: "document (Inr (json v st)) = Some (JSON_stringify v)"
  by (simp add: document_def json_def)

lemma JSON_stringify_undefined: "JSON_stringify v = JUndefined \<longleftrightarrow> v = JUndefined"
  by (cases v) simp_all

lemma plain_stringify: "plain v \<Longrightarrow> JSON_stringify v = v"
proof (induction v)
  case (JArr xs)
  have "map (\<lambda>x. if x = JUndefined then JNull else x) (map JSON_stringify xs) = xs"
    using JArr by (induction xs) auto
  then show ?case by simp
next
  case (JObj kvs)
  have pl: "plain v" if "(k, v) \<in> set kvs" for k v
    using JObj.prems that by (force simp add: list_all_iff)
  have st: "JSON_stringify v = v" if "(k, v) \<in> set kvs" for k v
    using JObj.IH [of "(k, v)" v] that pl by simp
  have "map (map_prod id JSON_stringify) kvs = kvs"
    by (rule map_idI) (auto simp add: st)
  moreover have "filter (\<lambda>kv. snd kv \<noteq> JUndefined) kvs = kvs"
    using pl by (intro filter_True) force
  ultimately show ?case by simp
qed simp_all

lemma truthy_defined: "truthy v \<Longrightarrow> v \<noteq> JUndefined"
  by (cases v) simp_all

lemmas example_defs =
  offer_request_def answer_request_def get_request_def ex_uuid_def ex_env_def ex_offer_def
  ex_offer2_def ex_answer_def

lemmas eval_defs =
  Room_fetch_def Room_gc_def expired_def request_action_def request_key_def path_parts_def
  part_def is_CreateOffer_def is_SubmitAnswer_def is_ReadSession_def Let_def

section \<open>Every stored record has an offer\<close>

lemma written_by_answer [simp]: "written_by k (v\<lparr>answer := a\<rparr>) = written_by k v"
  by (rule ext) (simp add: written_by_def split: event.splits)

lemma sessions_ok_gc:
  "sessions_ok evs m \<Longrightarrow> sessions_ok evs (Room_gc ttlSec now m)"
  by (auto simp add: sessions_ok_def Room_gc_Some)

lemma sessions_ok_mono:
  "sessions_ok evs m \<Longrightarrow> sessions_ok (evs @ [ev]) m"
  by (auto simp add: sessions_ok_def)

lemma sessions_ok_fetch:
  assumes "sessions_ok evs m"
  shows "sessions_ok (evs @ [Fetch e req]) (snd (Room_fetch e req m))"
proof -
  let ?s = "Room_gc 600 (gc_now e) m"
  have s: "sessions_ok (evs @ [Fetch e req]) ?s"
    using assms by (intro sessions_ok_mono sessions_ok_gc)
  consider (offer) "is_CreateOffer req" | (answer) "is_SubmitAnswer req"
    | (get) "is_ReadSession req"
    | (other) "\<not> is_CreateOffer req" "\<not> is_SubmitAnswer req" "\<not> is_ReadSession req"
    by blast
  then show ?thesis
  proof cases
    case offer
    show ?thesis
    proof (cases "\<exists>v. json_body req = Some v \<and> truthy v")
      case False
      then show ?thesis
        using s offer by (auto simp add: Room_fetch_offer split: option.splits)
    next
      case True
      then obtain v where v: "json_body req = Some v" "truthy v" by blast
      have "written_by (request_key e req)
              \<lparr> offer = v, answer = JUndefined, createdAt = set_now e \<rparr> (Fetch e req)"
        using offer v by (simp add: written_by_def)
      then show ?thesis
        using s offer v by (simp add: Room_fetch_offer sessions_ok_def)
    qed
  next
    case answer
    then show ?thesis
      using s by (auto simp add: Room_fetch_answer sessions_ok_def split: option.splits sum.splits)
  next
    case get
    then show ?thesis
      using s by (auto simp add: Room_fetch_get split: option.splits)
  next
    case other
    then show ?thesis
      using s by (simp add: Room_fetch_other)
  qed
qed

lemma sessions_ok_step:
  assumes "sessions_ok evs m"
  shows "sessions_ok (evs @ [ev]) (step ev m)"
proof (cases ev)
  case (Fetch e req)
  then show ?thesis using assms by (simp add: sessions_ok_fetch)
next
  case (Gc ttlSec now)
  then show ?thesis using assms by (simp add: sessions_ok_gc sessions_ok_mono)
qed

lemma sessions_ok_run: "sessions_ok evs (run evs Map.empty)"
proof (induction evs rule: rev_induct)
  case Nil
  show ?case by (simp add: run_def sessions_ok_def)
next
  case (snoc ev evs)
  then show ?case by (simp add: run_def sessions_ok_step)
qed

text \<open>
  Claim C9. Start from the empty map of the constructor and apply any sequence of requests
  (offer, answer, get, or any other request, each of which sweeps first) and of direct
  sweeps. Every record then stored has a truthy offer, and it was written by an offer
  request of that history: for that key, with that offer as its body, at the time that is
  the record's \<open>createdAt\<close>. Hence, for any request that follows, the entry that the answer
  branch finds after the sweep never has a falsy offer: the second half of its test
  \<open>!entry || !entry.offer\<close> never decides.
\<close>

theorem sessions_invariant:
  "(\<forall>k v. run evs Map.empty k = Some v \<longrightarrow>
       truthy (offer v) \<and> list_ex (written_by k v) evs)
   \<and> (\<forall>e req entry.
         Room_gc 600 (gc_now e) (run evs Map.empty) (request_key e req) = Some entry \<longrightarrow>
         truthy (offer entry))"
  using sessions_ok_run [of evs] by (auto simp add: sessions_ok_def Room_gc_Some)

theorem sessions_invariant_witness:
  "run [Fetch (ex_env 1000) (offer_request ''alpha'' None (Some ex_offer))] Map.empty ex_uuid
     = Some \<lparr> offer = ex_offer, answer = JUndefined, createdAt = 1000 \<rparr>
   \<and> truthy ex_offer
   \<and> list_ex (written_by ex_uuid \<lparr> offer = ex_offer, answer = JUndefined, createdAt = 1000 \<rparr>)
        [Fetch (ex_env 1000) (offer_request ''alpha'' None (Some ex_offer))]
   \<and> Room_gc 600 (gc_now (ex_env 2000))
        (run [Fetch (ex_env 1000) (offer_request ''alpha'' None (Some ex_offer))] Map.empty)
        (request_key (ex_env 2000) (answer_request ''alpha'' (Some ex_uuid) None))
     = Some \<lparr> offer = ex_offer, answer = JUndefined, createdAt = 1000 \<rparr>"
proof -
  let ?evs = "[Fetch (ex_env 1000) (offer_request ''alpha'' None (Some ex_offer))]"
  let ?v = "\<lparr> offer = ex_offer, answer = JUndefined, createdAt = 1000 \<rparr>"
  have stored: "run ?evs Map.empty ex_uuid = Some ?v"
    by (simp add: run_def eval_defs example_defs)
  have found: "Room_gc 600 (gc_now (ex_env 2000)) (run ?evs Map.empty)
        (request_key (ex_env 2000) (answer_request ''alpha'' (Some ex_uuid) None)) = Some ?v"
    by (simp add: run_def eval_defs example_defs)
  from sessions_invariant [of ?evs] stored found
  have "truthy (offer ?v) \<and> list_ex (written_by ex_uuid ?v) ?evs"
    by blast
  with stored found show ?thesis by simp
qed

section \<open>Rooms do not share sessions\<close>

lemma fetch_other_room:
  assumes "part (path_parts (pathname req)) 1 = Some a" and "a \<noteq> b"
  shows "snd (fetch e req rs) b = rs b"
  using assms by (auto simp add: fetch_def Let_def part_def split: prod.splits if_splits)

lemma fetch_depends_on_room:
  assumes "rs b = rs' b" and "part (path_parts (pathname req)) 1 = Some b"
  shows "fst (fetch e req rs) = fst (fetch e req rs')"
  using assms by (auto simp add: fetch_def Let_def part_def split: prod.splits if_splits)

lemma fetch_get_missing:
  assumes "is_ReadSession req" and "part (path_parts (pathname req)) 0 = Some ''room''"
    and "part (path_parts (pathname req)) 1 = Some b"
    and "rs b (request_key e req) = None"
  shows "fst (fetch e req rs) = Inr (withCORS (text_response ''Not found'' 404))"
proof -
  have m: "http_method req \<noteq> ''OPTIONS''"
    using assms(1) by (auto simp add: is_ReadSession_def)
  have len: "3 \<le> length (path_parts (pathname req))"
    using assms(1) by (auto simp add: is_ReadSession_def request_action_def part_def split: if_splits)
  have h: "pathname req \<noteq> ''/health''"
    using len by (auto simp add: path_parts_def)
  have slug: "path_parts (pathname req) ! 1 = b"
    using assms(3) by (auto simp add: part_def split: if_splits)
  have gone: "Room_gc 600 (gc_now e) (rs b) (request_key e req) = None"
    using assms(4) by (simp add: Room_gc_None)
  show ?thesis
    using m h len slug gone assms(1,2)
    by (auto simp add: fetch_def Let_def Room_fetch_get split: prod.splits)
qed

text \<open>
  Claim C8. A request whose path names the room \<open>a\<close> leaves the sessions of every other
  room \<open>b\<close> as they were, whatever the request is (offer, answer, get, or one that only
  sweeps). So every request to \<open>b\<close> is answered after it as it would have been without it;
  in particular a get for a key that room \<open>b\<close> does not hold is answered 404 "Not found",
  also when the request to \<open>a\<close> has just created that key there.
\<close>

theorem rooms_isolated:
  assumes "part (path_parts (pathname req)) 1 = Some a" and "a \<noteq> b"
  shows "snd (fetch e req rs) b = rs b
    \<and> (\<forall>e' req'. part (path_parts (pathname req')) 1 = Some b \<longrightarrow>
          fst (fetch e' req' (snd (fetch e req rs))) = fst (fetch e' req' rs))
    \<and> (\<forall>e' req'. is_ReadSession req' \<and> part (path_parts (pathname req')) 0 = Some ''room''
          \<and> part (path_parts (pathname req')) 1 = Some b \<and> rs b (request_key e' req') = None \<longrightarrow>
          fst (fetch e' req' (snd (fetch e req rs))) = Inr (withCORS (text_response ''Not found'' 404)))"
proof -
  have same: "snd (fetch e req rs) b = rs b"
    using assms by (rule fetch_other_room)
  then show ?thesis
    by (auto intro: fetch_depends_on_room fetch_get_missing)
qed

theorem rooms_isolated_witness:
  "snd (fetch (ex_env 1000) (offer_request ''alpha'' (Some ''K'') (Some ex_offer)) no_rooms) ''beta''
     = no_rooms ''beta''
   \<and> snd (fetch (ex_env 1000) (offer_request ''alpha'' (Some ''K'') (Some ex_offer)) no_rooms) ''alpha'' ''K''
     = Some \<lparr> offer = ex_offer, answer = JUndefined, createdAt = 1000 \<rparr>
   \<and> fst (fetch (ex_env 2000) (get_request ''beta'' (Some ''K''))
          (snd (fetch (ex_env 1000) (offer_request ''alpha'' (Some ''K'') (Some ex_offer)) no_rooms)))
     = Inr (withCORS (text_response ''Not found'' 404))"
proof -
  let ?req = "offer_request ''alpha'' (Some ''K'') (Some ex_offer)"
  let ?req' = "get_request ''beta'' (Some ''K'')"
  have a: "part (path_parts (pathname ?req)) 1 = Some ''alpha''"
    by (simp add: eval_defs example_defs)
  have ne: "''alpha'' \<noteq> ''beta''" by simp
  have b: "is_ReadSession ?req' \<and> part (path_parts (pathname ?req')) 0 = Some ''room''
          \<and> part (path_parts (pathname ?req')) 1 = Some ''beta''
          \<and> no_rooms ''beta'' (request_key (ex_env 2000) ?req') = None"
    by (simp add: eval_defs example_defs no_rooms_def)
  have stored: "snd (fetch (ex_env 1000) ?req no_rooms) ''alpha'' ''K''
     = Some \<lparr> offer = ex_offer, answer = JUndefined, createdAt = 1000 \<rparr>"
    by (simp add: fetch_def eval_defs example_defs no_rooms_def)
  from rooms_isolated [OF a ne, of "ex_env 1000" no_rooms] b stored
  show ?thesis by blast
qed


section \<open>Creating an offer\<close>

text \<open>
  Claim C4, as the code has it. An offer request is answered 400 \<open>{error: "invalid offer"}\<close>
  exactly when \<open>req.json()\<close> rejects (no body, or a body that is not JSON) or the body
  parses to a falsy value (\<open>null\<close>, \<open>false\<close>, \<open>0\<close>, \<open>""\<close>): the test is \<open>!offer\<close>. The
  sessions are then as the sweep left them. For every body that parses to a truthy value
  the record is written under the key of the request and the answer is 200 with that key.
\<close>

theorem create_offer_rejects_falsy:
  assumes "is_CreateOffer req"
  shows "(fst (Room_fetch e req m) = Inr (json (JObj [(''error'', JStr ''invalid offer'')]) 400))
           = (json_body req = None \<or> (\<exists>v. json_body req = Some v \<and> \<not> truthy v))
    \<and> (json_body req = None \<or> (\<exists>v. json_body req = Some v \<and> \<not> truthy v) \<longrightarrow>
          snd (Room_fetch e req m) = Room_gc 600 (gc_now e) m)
    \<and> (\<forall>v. json_body req = Some v \<and> truthy v \<longrightarrow>
          Room_fetch e req m =
            (Inr (json (JObj [(''key'', JStr (request_key e req))]) 200),
             (Room_gc 600 (gc_now e) m)(request_key e req \<mapsto>
                \<lparr> offer = v, answer = JUndefined, createdAt = set_now e \<rparr>)))"
  using assms by (auto simp add: Room_fetch_offer dest: json_status split: option.splits)

theorem create_offer_rejects_falsy_witness:
  "is_CreateOffer (offer_request ''alpha'' None None)
   \<and> Room_fetch (ex_env 1000) (offer_request ''alpha'' None None) Map.empty
       = (Inr (json (JObj [(''error'', JStr ''invalid offer'')]) 400), Map.empty)
   \<and> Room_fetch (ex_env 1000) (offer_request ''alpha'' None (Some ex_offer)) Map.empty
       = (Inr (json (JObj [(''key'', JStr ex_uuid)]) 200),
          [ex_uuid \<mapsto> \<lparr> offer = ex_offer, answer = JUndefined, createdAt = 1000 \<rparr>])"
proof -
  have c: "is_CreateOffer (offer_request ''alpha'' None b)" for b
    by (simp add: eval_defs example_defs)
  have gc: "Room_gc 600 1000 Map.empty = Map.empty"
    by (simp add: Room_gc_def)
  have k: "request_key (ex_env 1000) (offer_request ''alpha'' None b) = ex_uuid" for b
    by (simp add: request_key_def example_defs)
  have t: "truthy ex_offer" by (simp add: ex_offer_def)
  have b1: "json_body (offer_request ''alpha'' None None) = None"
    and b2: "json_body (offer_request ''alpha'' None (Some ex_offer)) = Some ex_offer"
    by (simp_all add: offer_request_def)
  have g: "gc_now (ex_env 1000) = 1000" "set_now (ex_env 1000) = 1000"
    by (simp_all add: ex_env_def)
  from create_offer_rejects_falsy [OF c, of "ex_env 1000" None Map.empty] b1
  have 1: "Room_fetch (ex_env 1000) (offer_request ''alpha'' None None) Map.empty
       = (Inr (json (JObj [(''error'', JStr ''invalid offer'')]) 400), Map.empty)"
    by (simp add: prod_eq_iff gc g)
  from create_offer_rejects_falsy [OF c, of "ex_env 1000" "Some ex_offer" Map.empty] b2 t
  have 2: "Room_fetch (ex_env 1000) (offer_request ''alpha'' None (Some ex_offer)) Map.empty
       = (Inr (json (JObj [(''key'', JStr ex_uuid)]) 200),
          [ex_uuid \<mapsto> \<lparr> offer = ex_offer, answer = JUndefined, createdAt = 1000 \<rparr>])"
    by (simp add: gc g k)
  from c 1 2 show ?thesis by simp
qed

text \<open>
  The claim as written fails: the body \<open>0\<close> parses and is rejected with 400, and the
  body \<open>"x"\<close>, a bare string and no structured payload, is accepted with 200.
\<close>

theorem create_offer_parseable_counterexample:
  "fst (Room_fetch (ex_env 1000) (offer_request ''alpha'' None (Some (JNum 0))) Map.empty)
     = Inr (json (JObj [(''error'', JStr ''invalid offer'')]) 400)
   \<and> fst (Room_fetch (ex_env 1000) (offer_request ''alpha'' None (Some (JStr ''x''))) Map.empty)
     = Inr (json (JObj [(''key'', JStr ex_uuid)]) 200)"
  by (simp add: eval_defs example_defs)

section \<open>Expiry\<close>

lemma read_session_result:
  assumes "is_ReadSession req" and "m (request_key e req) = Some v"
  shows "fst (Room_fetch e req m) =
           (if expired 600 (gc_now e) v then Inr (text_response ''Not found'' 404)
            else Inr (json (JObj [(''offer'', offer v),
                                  (''answer'', if truthy (answer v) then answer v else JNull)])
                           200))"
  using assms by (simp add: Room_fetch_get Room_gc_def)

lemma fetch_sweeps_first:
  assumes "k \<noteq> request_key e req"
  shows "snd (Room_fetch e req m) k = Room_gc 600 (gc_now e) m k"
proof -
  consider (offer) "is_CreateOffer req" | (answer) "is_SubmitAnswer req"
    | (get) "is_ReadSession req"
    | (other) "\<not> is_CreateOffer req" "\<not> is_SubmitAnswer req" "\<not> is_ReadSession req"
    by blast
  then show ?thesis
  proof cases
    case offer
    then show ?thesis using assms by (simp add: Room_fetch_offer split: option.splits)
  next
    case answer
    then show ?thesis
      using assms by (simp add: Room_fetch_answer split: option.splits sum.splits)
  next
    case get
    then show ?thesis by (simp add: Room_fetch_get split: option.splits)
  next
    case other
    then show ?thesis by (simp add: Room_fetch_other)
  qed
qed

text \<open>
  Claim C2, as the code has it. Take a stored record whose \<open>createdAt\<close> is \<open>T\<close> and any
  \<open>eps > 0\<close> (milliseconds). If \<open>T \<noteq> 0\<close>, a get for its key at the time
  \<open>T + 600 * 1000 - eps\<close> returns the record. A get at the time \<open>T + 600 * 1000 + eps\<close> is
  answered 404 "Not found", and the record is gone from the map. If \<open>T = 0\<close>, which is
  what a record written when the clock reads 0 has, a get at any time is answered 404
  and the record is gone: its \<open>createdAt\<close> is falsy. The sweep does this at the head of
  every request, whatever the request is: past the request, every entry under another key
  than the request's own is as the sweep left it, and the sweep keeps exactly the entries
  whose \<open>createdAt\<close> is not 0 and not more than 600 seconds before its clock reading.
\<close>

theorem ttl_expiry:
  assumes "m k = Some v" and "0 < eps"
    and "is_ReadSession req" and "request_key e req = k"
  shows "(createdAt v \<noteq> 0 \<and> gc_now e = createdAt v + 600 * 1000 - eps \<longrightarrow>
            fst (Room_fetch e req m) =
              Inr (json (JObj [(''offer'', offer v),
                               (''answer'', if truthy (answer v) then answer v else JNull)])
                        200))
    \<and> (gc_now e = createdAt v + 600 * 1000 + eps \<longrightarrow>
            fst (Room_fetch e req m) = Inr (text_response ''Not found'' 404)
            \<and> snd (Room_fetch e req m) k = None)
    \<and> (createdAt v = 0 \<longrightarrow>
            fst (Room_fetch e req m) = Inr (text_response ''Not found'' 404)
            \<and> snd (Room_fetch e req m) k = None)
    \<and> (\<forall>e' req' k'. k' \<noteq> request_key e' req' \<longrightarrow>
            snd (Room_fetch e' req' m) k' = Room_gc 600 (gc_now e') m k')
    \<and> (\<forall>now k' v'. Room_gc 600 now m k' = Some v' \<longleftrightarrow>
            m k' = Some v' \<and> createdAt v' \<noteq> 0 \<and> now - createdAt v' \<le> 600 * 1000)"
proof -
  have swept: "Room_gc 600 now m k' = Some v' \<longleftrightarrow>
      m k' = Some v' \<and> createdAt v' \<noteq> 0 \<and> now - createdAt v' \<le> 600 * 1000" for now k' v'
    by (auto simp add: Room_gc_Some expired_def)
  show ?thesis
    using assms swept
    by (auto simp add: Room_fetch_get Room_gc_def expired_def fetch_sweeps_first)
qed

theorem ttl_expiry_witness:
  "fst (Room_fetch (ex_env 600999) (get_request ''alpha'' (Some ''K''))
         [''K'' \<mapsto> \<lparr> offer = ex_offer, answer = JUndefined, createdAt = 1000 \<rparr>])
     = Inr (json (JObj [(''offer'', ex_offer), (''answer'', JNull)]) 200)
   \<and> fst (Room_fetch (ex_env 601001) (get_request ''alpha'' (Some ''K''))
         [''K'' \<mapsto> \<lparr> offer = ex_offer, answer = JUndefined, createdAt = 1000 \<rparr>])
     = Inr (text_response ''Not found'' 404)
   \<and> fst (Room_fetch (ex_env 1) (get_request ''alpha'' (Some ''K''))
         [''K'' \<mapsto> \<lparr> offer = ex_offer, answer = JUndefined, createdAt = 0 \<rparr>])
     = Inr (text_response ''Not found'' 404)
   \<and> snd (Room_fetch (ex_env 601001) (get_request ''alpha'' (Some ''J''))
         [''K'' \<mapsto> \<lparr> offer = ex_offer, answer = JUndefined, createdAt = 1000 \<rparr>]) ''K''
     = None"
proof -
  let ?v = "\<lparr> offer = ex_offer, answer = JUndefined, createdAt = 1000 \<rparr>"
  let ?z = "\<lparr> offer = ex_offer, answer = JUndefined, createdAt = 0 \<rparr>"
  let ?req = "get_request ''alpha'' (Some ''K'')"
  let ?other = "get_request ''alpha'' (Some ''J'')"
  have m: "[''K'' \<mapsto> ?v] ''K'' = Some ?v" and mz: "[''K'' \<mapsto> ?z] ''K'' = Some ?z" by simp_all
  have eps: "(0::int) < 1" by simp
  have r: "is_ReadSession ?req" by (simp add: eval_defs example_defs)
  have k: "request_key e ?req = ''K''" for e by (simp add: request_key_def example_defs)
  have j: "''K'' \<noteq> request_key (ex_env 601001) ?other" by (simp add: request_key_def example_defs)
  have "fst (Room_fetch (ex_env 600999) ?req [''K'' \<mapsto> ?v])
          = Inr (json (JObj [(''offer'', ex_offer), (''answer'', JNull)]) 200)"
    using ttl_expiry [where m = "[''K'' \<mapsto> ?v]" and k = "''K''" and v = ?v and eps = 1
                        and req = ?req and e = "ex_env 600999", OF m eps r k]
    by (simp add: ex_env_def)
  moreover have "fst (Room_fetch (ex_env 601001) ?req [''K'' \<mapsto> ?v])
          = Inr (text_response ''Not found'' 404)"
    using ttl_expiry [where m = "[''K'' \<mapsto> ?v]" and k = "''K''" and v = ?v and eps = 1
                        and req = ?req and e = "ex_env 601001", OF m eps r k]
    by (simp add: ex_env_def)
  moreover have "fst (Room_fetch (ex_env 1) ?req [''K'' \<mapsto> ?z])
          = Inr (text_response ''Not found'' 404)"
    using ttl_expiry [where m = "[''K'' \<mapsto> ?z]" and k = "''K''" and v = ?z and eps = 1
                        and req = ?req and e = "ex_env 1", OF mz eps r k]
    by simp
  moreover have "snd (Room_fetch (ex_env 601001) ?other [''K'' \<mapsto> ?v]) ''K'' = None"
  proof -
    have "snd (Room_fetch (ex_env 601001) ?other [''K'' \<mapsto> ?v]) ''K''
            = Room_gc 600 (gc_now (ex_env 601001)) [''K'' \<mapsto> ?v] ''K''"
      using ttl_expiry [where m = "[''K'' \<mapsto> ?v]" and k = "''K''" and v = ?v and eps = 1
                        and req = ?req and e = "ex_env 601001", OF m eps r k] j
      by blast
    then show ?thesis by (simp add: Room_gc_def expired_def ex_env_def)
  qed
  ultimately show ?thesis by simp
qed

text \<open>
  The claim as written fails for a record created when the clock reads 0: its
  \<open>createdAt\<close> is falsy, so the next sweep deletes it, here one millisecond before the end
  of the 600 seconds.
\<close>

theorem ttl_expiry_counterexample:
  "fst (Room_fetch (ex_env (0 + 600 * 1000 - 1)) (get_request ''alpha'' (Some ''K''))
         (snd (Room_fetch (ex_env 0) (offer_request ''alpha'' (Some ''K'') (Some ex_offer)) Map.empty)))
     = Inr (text_response ''Not found'' 404)"
  by (simp add: eval_defs example_defs)

section \<open>Overwriting a key\<close>

lemma get_document:
  assumes "truthy x"
  shows "document (Inr (json (JObj [(''offer'', x), (''answer'', if truthy y then y else JNull)]) 200))
           = Some (JObj [(''offer'', JSON_stringify x),
                         (''answer'', if truthy y then JSON_stringify y else JNull)])"
  using assms
  by (auto simp add: document_json JSON_stringify_undefined dest: truthy_defined)





section \<open>Answers\<close>



lemma submit_then_read:
  assumes "m K = Some v" and "truthy (offer v)"
    and "\<not> expired 600 (gc_now e) v" and "\<not> expired 600 (gc_now e') v"
    and "is_SubmitAnswer req" and "request_key e req = K"
    and "json_body req = Some b" and "prop_answer b = Inr A"
    and "is_ReadSession req'" and "request_key e' req' = K"
  shows "fst (Room_fetch e req m) = Inr (json (JObj [(''ok'', JBool True)]) 200)"
    and "snd (Room_fetch e req m) K = Some (v\<lparr> answer := A \<rparr>)"
    and "fst (Room_fetch e' req' (snd (Room_fetch e req m)))
           = Inr (json (JObj [(''offer'', offer v),
                              (''answer'', if truthy A then A else JNull)]) 200)"
proof -
  have gc: "Room_gc 600 (gc_now e) m K = Some v"
    using assms(1,3) by (simp add: Room_gc_Some)
  show r: "fst (Room_fetch e req m) = Inr (json (JObj [(''ok'', JBool True)]) 200)"
    and s: "snd (Room_fetch e req m) K = Some (v\<lparr> answer := A \<rparr>)"
    using assms(2,5,6,7,8) gc by (simp_all add: Room_fetch_answer)
  have "\<not> expired 600 (gc_now e') (v\<lparr> answer := A \<rparr>)"
    using assms(4) by (simp add: expired_def)
  then show "fst (Room_fetch e' req' (snd (Room_fetch e req m)))
           = Inr (json (JObj [(''offer'', offer v),
                              (''answer'', if truthy A then A else JNull)]) 200)"
    using s assms(9,10) by (simp add: read_session_result)
qed

text \<open>
  Claim C7, as the code has it. For a live record with an offer a get returns the stored
  offer, and the stored answer when that is truthy, as \<open>JSON.stringify\<close> writes them; it
  returns \<open>answer: null\<close> when the stored answer is falsy, which is the case before any
  submission and also after the submission of \<open>undefined\<close>, \<open>null\<close>, \<open>false\<close>, \<open>0\<close>, \<open>-0\<close>
  or \<open>""\<close>. An accepted answer request stores the \<open>answer\<close> property \<open>A\<close> of its body
  unchanged. The get that follows returns the offer and \<open>A\<close> themselves when they are
  plain and \<open>A\<close> is truthy; it returns \<open>answer: null\<close> when \<open>A\<close> is \<open>Infinity\<close> or
  \<open>-Infinity\<close>, as it does when \<open>A\<close> is falsy.
\<close>

theorem answer_passthrough:
  assumes "m K = Some v" and "truthy (offer v)"
    and "\<not> expired 600 (gc_now e) v" and "\<not> expired 600 (gc_now e') v"
    and "is_SubmitAnswer req" and "request_key e req = K"
    and "json_body req = Some b" and "prop_answer b = Inr A"
    and "is_ReadSession req'" and "request_key e' req' = K"
  shows "fst (Room_fetch e' req' m)
           = Inr (json (JObj [(''offer'', offer v),
                              (''answer'', if truthy (answer v) then answer v else JNull)]) 200)
    \<and> document (fst (Room_fetch e' req' m))
           = Some (JObj [(''offer'', JSON_stringify (offer v)),
                         (''answer'', if truthy (answer v) then JSON_stringify (answer v)
                                      else JNull)])
    \<and> snd (Room_fetch e req m) K = Some (v\<lparr> answer := A \<rparr>)
    \<and> fst (Room_fetch e' req' (snd (Room_fetch e req m)))
           = Inr (json (JObj [(''offer'', offer v),
                              (''answer'', if truthy A then A else JNull)]) 200)
    \<and> document (fst (Room_fetch e' req' (snd (Room_fetch e req m))))
           = Some (JObj [(''offer'', JSON_stringify (offer v)),
                         (''answer'', if truthy A then JSON_stringify A else JNull)])
    \<and> (plain (offer v) \<and> plain A \<and> truthy A \<longrightarrow>
          document (fst (Room_fetch e' req' (snd (Room_fetch e req m))))
            = Some (JObj [(''offer'', offer v), (''answer'', A)]))
    \<and> (A = JInfinity \<or> A = JNegInfinity \<or> \<not> truthy A \<longrightarrow>
          document (fst (Room_fetch e' req' (snd (Room_fetch e req m))))
            = Some (JObj [(''offer'', JSON_stringify (offer v)), (''answer'', JNull)]))"
proof -
  have before: "fst (Room_fetch e' req' m)
           = Inr (json (JObj [(''offer'', offer v),
                              (''answer'', if truthy (answer v) then answer v else JNull)]) 200)"
    using assms(1,4,9,10) by (simp add: read_session_result)
  note after = submit_then_read(2,3) [where m = m and K = K and v = v, OF assms]
  have d1: "document (fst (Room_fetch e' req' m))
           = Some (JObj [(''offer'', JSON_stringify (offer v)),
                         (''answer'', if truthy (answer v) then JSON_stringify (answer v)
                                      else JNull)])"
    unfolding before using assms(2) by (rule get_document)
  have d2: "document (fst (Room_fetch e' req' (snd (Room_fetch e req m))))
           = Some (JObj [(''offer'', JSON_stringify (offer v)),
                         (''answer'', if truthy A then JSON_stringify A else JNull)])"
    unfolding after(2) using assms(2) by (rule get_document)
  show ?thesis
    using before after d1 d2 by (auto simp add: plain_stringify)
qed


theorem answer_passthrough_witness:
  "document (fst (Room_fetch (ex_env 3000) (get_request ''alpha'' (Some ''K''))
         (snd (Room_fetch (ex_env 2000)
                 (answer_request ''alpha'' (Some ''K'') (Some (JObj [(''answer'', ex_answer)])))
                 [''K'' \<mapsto> \<lparr> offer = ex_offer, answer = JUndefined, createdAt = 1000 \<rparr>]))))
     = Some (JObj [(''offer'', ex_offer), (''answer'', ex_answer)])
   \<and> document (fst (Room_fetch (ex_env 3000) (get_request ''alpha'' (Some ''K''))
         [''K'' \<mapsto> \<lparr> offer = ex_offer, answer = JUndefined, createdAt = 1000 \<rparr>]))
     = Some (JObj [(''offer'', ex_offer), (''answer'', JNull)])"
proof -
  let ?v = "\<lparr> offer = ex_offer, answer = JUndefined, createdAt = 1000 \<rparr>"
  let ?req = "answer_request ''alpha'' (Some ''K'') (Some (JObj [(''answer'', ex_answer)]))"
  let ?req' = "get_request ''alpha'' (Some ''K'')"
  have 1: "[''K'' \<mapsto> ?v] ''K'' = Some ?v" by simp
  have 2: "truthy (offer ?v)" by (simp add: ex_offer_def)
  have 3: "\<not> expired 600 (gc_now (ex_env 2000)) ?v" by (simp add: expired_def ex_env_def)
  have 4: "\<not> expired 600 (gc_now (ex_env 3000)) ?v" by (simp add: expired_def ex_env_def)
  have 5: "is_SubmitAnswer ?req" by (simp add: eval_defs example_defs)
  have 6: "request_key (ex_env 2000) ?req = ''K''" by (simp add: request_key_def example_defs)
  have 7: "json_body ?req = Some (JObj [(''answer'', ex_answer)])" by (simp add: answer_request_def)
  have 8: "prop_answer (JObj [(''answer'', ex_answer)]) = Inr ex_answer" by simp
  have 9: "is_ReadSession ?req'" by (simp add: eval_defs example_defs)
  have 10: "request_key (ex_env 3000) ?req' = ''K''" by (simp add: request_key_def example_defs)
  have t: "plain (offer ?v) \<and> plain ex_answer \<and> truthy ex_answer"
    by (simp add: ex_offer_def ex_answer_def)
  have s: "JSON_stringify ex_offer = ex_offer" by (simp add: ex_offer_def)
  note th = answer_passthrough [where m = "[''K'' \<mapsto> ?v]" and K = "''K''" and v = ?v
        and req = ?req and e = "ex_env 2000" and b = "JObj [(''answer'', ex_answer)]"
        and A = ex_answer and req' = ?req' and e' = "ex_env 3000", OF 1 2 3 4 5 6 7 8 9 10]
  from th t
  have "document (fst (Room_fetch (ex_env 3000) ?req'
          (snd (Room_fetch (ex_env 2000) ?req [''K'' \<mapsto> ?v]))))
        = Some (JObj [(''offer'', offer ?v), (''answer'', ex_answer)])"
    by blast
  moreover from th
  have "document (fst (Room_fetch (ex_env 3000) ?req' [''K'' \<mapsto> ?v]))
        = Some (JObj [(''offer'', JSON_stringify (offer ?v)),
                      (''answer'', if truthy (answer ?v) then JSON_stringify (answer ?v)
                                   else JNull)])"
    by blast
  ultimately show ?thesis using s by simp
qed

text \<open>
  The claim as written fails: after the body \<open>{"answer": false}\<close> has been submitted
  and stored, the get reports \<open>answer: null\<close>, not the stored \<open>false\<close>; and after the body
  \<open>{"answer": 1e400}\<close>, stored as \<open>Infinity\<close>, the get reports \<open>answer: null\<close> as well.
\<close>

theorem answer_passthrough_counterexample:
  "snd (Room_fetch (ex_env 2000)
          (answer_request ''alpha'' (Some ''K'') (Some (JObj [(''answer'', JBool False)])))
          (snd (Room_fetch (ex_env 1000) (offer_request ''alpha'' (Some ''K'') (Some ex_offer))
                  Map.empty))) ''K''
     = Some \<lparr> offer = ex_offer, answer = JBool False, createdAt = 1000 \<rparr>
   \<and> document (fst (Room_fetch (ex_env 3000) (get_request ''alpha'' (Some ''K''))
         (snd (Room_fetch (ex_env 2000)
                 (answer_request ''alpha'' (Some ''K'') (Some (JObj [(''answer'', JBool False)])))
                 (snd (Room_fetch (ex_env 1000) (offer_request ''alpha'' (Some ''K'') (Some ex_offer))
                         Map.empty))))))
     = Some (JObj [(''offer'', ex_offer), (''answer'', JNull)])
   \<and> snd (Room_fetch (ex_env 2000)
          (answer_request ''alpha'' (Some ''K'') (Some (JObj [(''answer'', JInfinity)])))
          (snd (Room_fetch (ex_env 1000) (offer_request ''alpha'' (Some ''K'') (Some ex_offer))
                  Map.empty))) ''K''
     = Some \<lparr> offer = ex_offer, answer = JInfinity, createdAt = 1000 \<rparr>
   \<and> document (fst (Room_fetch (ex_env 3000) (get_request ''alpha'' (Some ''K''))
         (snd (Room_fetch (ex_env 2000)
                 (answer_request ''alpha'' (Some ''K'') (Some (JObj [(''answer'', JInfinity)])))
                 (snd (Room_fetch (ex_env 1000) (offer_request ''alpha'' (Some ''K'') (Some ex_offer))
                         Map.empty))))))
     = Some (JObj [(''offer'', ex_offer), (''answer'', JNull)])"
  by (simp add: eval_defs example_defs json_def document_def)

section \<open>Requests without a key\<close>



section \<open>Round trip\<close>





section \<open>What an answer request changes\<close>

text \<open>
  Past the sweep, an answer request leaves every entry under another key alone; when its
  key has no entry it is answered 404 and nothing is written; when its key has an entry,
  the entry keeps its offer and its \<open>createdAt\<close>.
\<close>

lemma submit_answer_frame:
  assumes "is_SubmitAnswer req"
  shows "(\<forall>k. k \<noteq> request_key e req \<longrightarrow>
            snd (Room_fetch e req m) k = Room_gc 600 (gc_now e) m k)
    \<and> (Room_gc 600 (gc_now e) m (request_key e req) = None \<longrightarrow>
          Room_fetch e req m =
            (Inr (json (JObj [(''error'', JStr ''no offer'')]) 404), Room_gc 600 (gc_now e) m))
    \<and> (\<forall>entry. Room_gc 600 (gc_now e) m (request_key e req) = Some entry \<longrightarrow>
          (\<exists>entry'. snd (Room_fetch e req m) (request_key e req) = Some entry'
             \<and> offer entry' = offer entry \<and> createdAt entry' = createdAt entry))"
  using assms by (auto simp add: Room_fetch_answer split: option.splits sum.splits)

text \<open>
  Claim C5 says that an answer request for a key that holds a record sets the answer of
  that record. Here the key \<open>K\<close> holds a record with an offer and the body of the request
  is \<open>null\<close>, which is valid JSON: \<open>req.json()\<close> resolves to \<open>null\<close>, the \<open>catch\<close> that would
  supply \<open>{}\<close> does not run, and \<open>body.answer\<close> throws a TypeError. No answer is set
  and no response is built. The same request with a body that does not parse at all is
  answered \<open>{ok: true}\<close>.
\<close>

theorem submit_answer_null_body:
  "snd (Room_fetch (ex_env 1000) (offer_request ''alpha'' (Some ''K'') (Some ex_offer)) Map.empty) ''K''
     = Some \<lparr> offer = ex_offer, answer = JUndefined, createdAt = 1000 \<rparr>
   \<and> fst (Room_fetch (ex_env 2000) (answer_request ''alpha'' (Some ''K'') (Some JNull))
          (snd (Room_fetch (ex_env 1000) (offer_request ''alpha'' (Some ''K'') (Some ex_offer))
                  Map.empty)))
     = Inl TypeError
   \<and> fst (Room_fetch (ex_env 2000) (answer_request ''alpha'' (Some ''K'') None)
          (snd (Room_fetch (ex_env 1000) (offer_request ''alpha'' (Some ''K'') (Some ex_offer))
                  Map.empty)))
     = Inr (json (JObj [(''ok'', JBool True)]) 200)"
  by (simp add: eval_defs example_defs)


end
